theory Spec2Isabelle
  imports Complex_Main
begin

section \<open>The SQLite3 engine as seen by sqlitepp\<close>

text \<open>
  sqlitepp wraps the SQLite3 C API.  The engine itself is not part of the
  repository, so it is a parameter of every definition below: a deterministic
  engine is a family of functions that answer a call from the list of all
  calls made to the engine so far.  Every \<^verbatim>\<open>sqlite3_*\<close> call of the source is
  recorded in that list, so "the engine was not called" is a statement about
  the list.

  Handles are the pointers \<^verbatim>\<open>sqlite3*\<close> and \<^verbatim>\<open>sqlite3_stmt*\<close>; \<open>None\<close> is
  \<^verbatim>\<open>NULL\<close>.  C's \<^verbatim>\<open>int\<close> is \<open>int\<close>: no arithmetic is done on result codes,
  indices or values.  A \<^verbatim>\<open>double\<close> is only passed through and is \<open>real\<close> here.
\<close>

type_synonym db_handle = "nat option"
type_synonym stmt_handle = "nat option"
type_synonym double = real

datatype call =
    Call_open string
  | Call_close db_handle
  | Call_errmsg db_handle
  | Call_errstr int
  | Call_prepare_v2 db_handle string int
  | Call_finalize stmt_handle
  | Call_step stmt_handle
  | Call_reset stmt_handle
  | Call_bind_double stmt_handle int double
  | Call_bind_int stmt_handle int int
  | Call_bind_text stmt_handle int string int
  | Call_bind_parameter_index stmt_handle string
  | Call_data_count stmt_handle
  | Call_column_count stmt_handle
  | Call_column_double stmt_handle int
  | Call_column_int stmt_handle int
  | Call_column_text stmt_handle int
  | Call_last_insert_rowid db_handle

type_synonym trace = "call list"

record engine =
  sqlite3_open :: "trace \<Rightarrow> string \<Rightarrow> int \<times> db_handle"
  sqlite3_close :: "trace \<Rightarrow> db_handle \<Rightarrow> int"
  sqlite3_errmsg :: "trace \<Rightarrow> db_handle \<Rightarrow> string"
  sqlite3_errstr :: "trace \<Rightarrow> int \<Rightarrow> string"
  sqlite3_prepare_v2 :: "trace \<Rightarrow> db_handle \<Rightarrow> string \<Rightarrow> int \<Rightarrow> int \<times> stmt_handle"
  sqlite3_finalize :: "trace \<Rightarrow> stmt_handle \<Rightarrow> int"
  sqlite3_step :: "trace \<Rightarrow> stmt_handle \<Rightarrow> int"
  sqlite3_reset :: "trace \<Rightarrow> stmt_handle \<Rightarrow> int"
  sqlite3_bind_double :: "trace \<Rightarrow> stmt_handle \<Rightarrow> int \<Rightarrow> double \<Rightarrow> int"
  sqlite3_bind_int :: "trace \<Rightarrow> stmt_handle \<Rightarrow> int \<Rightarrow> int \<Rightarrow> int"
  sqlite3_bind_text :: "trace \<Rightarrow> stmt_handle \<Rightarrow> int \<Rightarrow> string \<Rightarrow> int \<Rightarrow> int"
  sqlite3_bind_parameter_index :: "trace \<Rightarrow> stmt_handle \<Rightarrow> string \<Rightarrow> int"
  sqlite3_data_count :: "trace \<Rightarrow> stmt_handle \<Rightarrow> int"
  sqlite3_column_count :: "trace \<Rightarrow> stmt_handle \<Rightarrow> int"
  sqlite3_column_double :: "trace \<Rightarrow> stmt_handle \<Rightarrow> int \<Rightarrow> double"
  sqlite3_column_int :: "trace \<Rightarrow> stmt_handle \<Rightarrow> int \<Rightarrow> int"
  sqlite3_column_text :: "trace \<Rightarrow> stmt_handle \<Rightarrow> int \<Rightarrow> string option"
  sqlite3_last_insert_rowid :: "trace \<Rightarrow> db_handle \<Rightarrow> int"

text \<open>The result codes of \<^verbatim>\<open>sqlite3.h\<close> that the source names.\<close>

definition SQLITE_OK :: int where "SQLITE_OK = 0"
definition SQLITE_NOMEM :: int where "SQLITE_NOMEM = 7"
definition SQLITE_RANGE :: int where "SQLITE_RANGE = 25"
definition SQLITE_ROW :: int where "SQLITE_ROW = 100"
definition SQLITE_DONE :: int where "SQLITE_DONE = 101"


section \<open>Exceptions and outcomes\<close>

text \<open>
  The exception classes the source throws, each with its \<^verbatim>\<open>what()\<close> text;
  a \<open>DatabaseError\<close> also carries \<^verbatim>\<open>m_errorCode\<close>.  An operation returns a
  value, throws, has undefined behaviour, or aborts the process.
\<close>

datatype exception =
    logic_error string
  | invalid_argument string
  | out_of_range string
  | runtime_error string
  | DatabaseError int string

datatype failure = Throw exception | Undefined_behaviour | Abort

type_synonym 'a result = "failure + 'a"

text \<open>\<^verbatim>\<open>operator<<(int)\<close> of the string stream: decimal digits, a sign if negative.\<close>

fun decimal :: "nat \<Rightarrow> string" where
  "decimal n =
     (if n < 10 then [char_of (48 + n)]
      else decimal (n div 10) @ [char_of (48 + n mod 10)])"

declare decimal.simps [simp del]

definition put_int :: "int \<Rightarrow> string" where
  "put_int i = (if i < 0 then CHR ''-'' # decimal (nat (- i)) else decimal (nat i))"

definition getErrorMessage :: "int \<Rightarrow> string \<Rightarrow> string" where
  "getErrorMessage errorCode errorMessage =
     ''Caught SQLite3 error '' @ put_int errorCode @ '' meaning: '' @ errorMessage"

text \<open>
  \<^verbatim>\<open>DatabaseError(errorCode)\<close> asks the engine for the default text of the code;
  \<^verbatim>\<open>DatabaseError(errorCode, errorMessage)\<close> takes the text it is given.
\<close>

definition DatabaseError1 :: "engine \<Rightarrow> int \<Rightarrow> trace \<Rightarrow> exception \<times> trace" where
  "DatabaseError1 eng errorCode tr =
     (DatabaseError errorCode (getErrorMessage errorCode (sqlite3_errstr eng tr errorCode)),
      tr @ [Call_errstr errorCode])"

definition DatabaseError2 :: "int \<Rightarrow> string \<Rightarrow> exception" where
  "DatabaseError2 errorCode errorMessage =
     DatabaseError errorCode (getErrorMessage errorCode errorMessage)"

fun errorCode :: "exception \<Rightarrow> int option" where
  "errorCode (DatabaseError c m) = Some c"
| "errorCode _ = None"


section \<open>Openable\<close>

text \<open>
  \<^verbatim>\<open>m_name\<close> is declared \<^verbatim>\<open>const std::string& m_name\<close>: a reference, not a
  string.  A reference is modelled by the string it refers to while that
  string is alive, and by \<open>None\<close> once the string was destroyed.

  The constructor \<^verbatim>\<open>Openable(open, name)\<close> binds \<^verbatim>\<open>m_name\<close> to its parameter
  \<^verbatim>\<open>name\<close>, itself a reference to the caller's argument.  Both callers,
  \<^verbatim>\<open>Openable(true, "Statement")\<close> and \<^verbatim>\<open>Openable(false, "Database")\<close>, pass a
  string literal; the \<^verbatim>\<open>std::string\<close> made from it is a temporary that is
  destroyed when that initialiser ends.  So after construction \<^verbatim>\<open>m_name\<close>
  refers to a destroyed string, whatever the literal was, and nothing ever
  binds it again.
\<close>

record Openable =
  m_open :: bool
  m_name :: "string option"

definition bound_to_temporary :: "string \<Rightarrow> string option" where
  "bound_to_temporary literal = None"

definition isOpen :: "'a Openable_scheme \<Rightarrow> bool" where
  "isOpen x = m_open x"

definition requireOpen :: "'a Openable_scheme \<Rightarrow> unit result" where
  "requireOpen x =
     (if \<not> m_open x then
        (case m_name x of
           None \<Rightarrow> Inl Undefined_behaviour
         | Some name \<Rightarrow> Inl (Throw (logic_error (name @ '' is not open.''))))
      else Inr ())"

text \<open>
  \<^verbatim>\<open>requireOpen\<close> reads \<^verbatim>\<open>m_name\<close> only when the object is closed: through
  a reference to a destroyed string that read is undefined.
\<close>

definition setOpen :: "bool \<Rightarrow> 'a Openable_scheme \<Rightarrow> 'a Openable_scheme" where
  "setOpen opn x = x\<lparr>m_open := opn\<rparr>"


section \<open>Statement\<close>

text \<open>
  \<^verbatim>\<open>m_instancePointer\<close> is the \<^verbatim>\<open>std::weak_ptr<Statement>\<close>: the address of
  a shared object, or \<open>None\<close> when it was never set.
\<close>

type_synonym addr = nat

record Statement = Openable +
  m_handle :: stmt_handle
  m_canRead :: bool
  m_instancePointer :: "addr option"

definition Statement_new :: "stmt_handle \<Rightarrow> Statement" where
  "Statement_new handle =
     \<lparr>m_open = True, m_name = bound_to_temporary ''Statement'', m_handle = handle,
      m_canRead = False, m_instancePointer = None\<rparr>"

definition requireCanRead :: "Statement \<Rightarrow> unit result" where
  "requireCanRead s =
     (if \<not> m_canRead s
      then Inl (Throw (logic_error ''Trying to read from statement without data''))
      else Inr ())"

definition setInstancePointer :: "addr option \<Rightarrow> Statement \<Rightarrow> Statement" where
  "setInstancePointer instancePointer s = s\<lparr>m_instancePointer := instancePointer\<rparr>"

text \<open>
  A method takes the object and the calls made so far, and gives back its
  outcome, the object and the calls made; a \<^verbatim>\<open>const\<close> method gives back no
  object.

  \<^verbatim>\<open>Statement::step\<close> (the same body in \<^verbatim>\<open>sqlitepp.cc\<close> and \<^verbatim>\<open>sqlitepp.cpp\<close>).
\<close>

definition Statement_step ::
  "engine \<Rightarrow> Statement \<Rightarrow> trace \<Rightarrow> bool result \<times> Statement \<times> trace" where
  "Statement_step eng s tr =
     (case requireOpen s of
        Inl e \<Rightarrow> (Inl e, s, tr)
      | Inr _ \<Rightarrow>
          (let result = sqlite3_step eng tr (m_handle s);
               tr1 = tr @ [Call_step (m_handle s)]
           in if result = SQLITE_ROW then
                (let s1 = s\<lparr>m_canRead := True\<rparr> in (Inr (m_canRead s1), s1, tr1))
              else if result = SQLITE_DONE then
                (let s1 = s\<lparr>m_canRead := False\<rparr> in (Inr (m_canRead s1), s1, tr1))
              else
                (let (e, tr2) = DatabaseError1 eng result tr1
                 in (Inl (Throw e), s, tr2))))"

text \<open>
  \<^verbatim>\<open>Statement::close\<close> (\<^verbatim>\<open>Statement::finalize\<close> in \<^verbatim>\<open>sqlitepp.cpp\<close>); the
  destructor \<^verbatim>\<open>Statement::~Statement\<close> has the same body.
\<close>

definition Statement_close ::
  "engine \<Rightarrow> Statement \<Rightarrow> trace \<Rightarrow> unit result \<times> Statement \<times> trace" where
  "Statement_close eng s tr =
     (if isOpen s then
        (let ignored = sqlite3_finalize eng tr (m_handle s);
             tr1 = tr @ [Call_finalize (m_handle s)]
         in (Inr (), setOpen False s, tr1))
      else (Inr (), s, tr))"

definition Statement_destroy :: "engine \<Rightarrow> Statement \<Rightarrow> trace \<Rightarrow> Statement \<times> trace" where
  "Statement_destroy eng s tr =
     (if isOpen s then
        (let ignored = sqlite3_finalize eng tr (m_handle s);
             tr1 = tr @ [Call_finalize (m_handle s)]
         in (setOpen False s, tr1))
      else (s, tr))"

text \<open>\<^verbatim>\<open>Statement::reset\<close>.\<close>

definition Statement_reset ::
  "engine \<Rightarrow> Statement \<Rightarrow> trace \<Rightarrow> bool result \<times> Statement \<times> trace" where
  "Statement_reset eng s tr =
     (case requireOpen s of
        Inl e \<Rightarrow> (Inl e, s, tr)
      | Inr _ \<Rightarrow>
          (Inr (sqlite3_reset eng tr (m_handle s) = SQLITE_OK), s,
           tr @ [Call_reset (m_handle s)]))"

text \<open>\<^verbatim>\<open>Statement::getParameterIndex\<close>.\<close>

definition getParameterIndex ::
  "engine \<Rightarrow> string \<Rightarrow> Statement \<Rightarrow> trace \<Rightarrow> int result \<times> trace" where
  "getParameterIndex eng name s tr =
     (case requireOpen s of
        Inl e \<Rightarrow> (Inl e, tr)
      | Inr _ \<Rightarrow>
          (let index = sqlite3_bind_parameter_index eng tr (m_handle s) name;
               tr1 = tr @ [Call_bind_parameter_index (m_handle s) name]
           in if index = 0
              then (Inl (Throw (invalid_argument (''No such parameter: '' @ name))), tr1)
              else (Inr index, tr1)))"

text \<open>
  \<^verbatim>\<open>"Bind index out of range: " + index\<close> adds an \<^verbatim>\<open>int\<close> to a
  \<^verbatim>\<open>const char*\<close>: the result points \<open>index\<close> characters into the literal.
  It is a C string only while it stays inside the literal (the terminating
  zero is at offset \<open>length lit\<close>); elsewhere reading it is undefined.
\<close>

definition literal_plus :: "string \<Rightarrow> int \<Rightarrow> string option" where
  "literal_plus lit index =
     (if 0 \<le> index \<and> index \<le> int (length lit) then Some (drop (nat index) lit)
      else None)"

text \<open>\<^verbatim>\<open>Statement::handleBindResult\<close>.\<close>

definition handleBindResult :: "engine \<Rightarrow> int \<Rightarrow> int \<Rightarrow> trace \<Rightarrow> unit result \<times> trace" where
  "handleBindResult eng index result tr =
     (if result = SQLITE_OK then (Inr (), tr)
      else if result = SQLITE_RANGE then
        (case literal_plus ''Bind index out of range: '' index of
           None \<Rightarrow> (Inl Undefined_behaviour, tr)
         | Some what \<Rightarrow> (Inl (Throw (out_of_range what)), tr))
      else if result = SQLITE_NOMEM then
        (Inl (Throw (runtime_error ''No memory to bind parameter'')), tr)
      else (let (e, tr1) = DatabaseError1 eng result tr in (Inl (Throw e), tr1)))"

text \<open>
  The six \<^verbatim>\<open>Statement::bind\<close> overloads (\<^verbatim>\<open>bindDouble\<close>, \<^verbatim>\<open>bindInt\<close> and
  \<^verbatim>\<open>bindString\<close> in \<^verbatim>\<open>sqlitepp.cpp\<close>, which passes \<open>-1\<close> as the text length).
  Binding changes no field of the Statement.
\<close>

definition bindDouble :: "engine \<Rightarrow> int \<Rightarrow> double \<Rightarrow> Statement \<Rightarrow> trace \<Rightarrow> unit result \<times> trace" where
  "bindDouble eng index val s tr =
     (case requireOpen s of
        Inl e \<Rightarrow> (Inl e, tr)
      | Inr _ \<Rightarrow>
          handleBindResult eng index (sqlite3_bind_double eng tr (m_handle s) index val)
            (tr @ [Call_bind_double (m_handle s) index val]))"

definition bindDouble_name ::
  "engine \<Rightarrow> string \<Rightarrow> double \<Rightarrow> Statement \<Rightarrow> trace \<Rightarrow> unit result \<times> trace" where
  "bindDouble_name eng name val s tr =
     (case getParameterIndex eng name s tr of
        (Inl e, tr1) \<Rightarrow> (Inl e, tr1)
      | (Inr index, tr1) \<Rightarrow> bindDouble eng index val s tr1)"

definition bindInt :: "engine \<Rightarrow> int \<Rightarrow> int \<Rightarrow> Statement \<Rightarrow> trace \<Rightarrow> unit result \<times> trace" where
  "bindInt eng index val s tr =
     (case requireOpen s of
        Inl e \<Rightarrow> (Inl e, tr)
      | Inr _ \<Rightarrow>
          handleBindResult eng index (sqlite3_bind_int eng tr (m_handle s) index val)
            (tr @ [Call_bind_int (m_handle s) index val]))"

definition bindInt_name ::
  "engine \<Rightarrow> string \<Rightarrow> int \<Rightarrow> Statement \<Rightarrow> trace \<Rightarrow> unit result \<times> trace" where
  "bindInt_name eng name val s tr =
     (case getParameterIndex eng name s tr of
        (Inl e, tr1) \<Rightarrow> (Inl e, tr1)
      | (Inr index, tr1) \<Rightarrow> bindInt eng index val s tr1)"

definition bindString :: "engine \<Rightarrow> int \<Rightarrow> string \<Rightarrow> Statement \<Rightarrow> trace \<Rightarrow> unit result \<times> trace" where
  "bindString eng index val s tr =
     (case requireOpen s of
        Inl e \<Rightarrow> (Inl e, tr)
      | Inr _ \<Rightarrow>
          handleBindResult eng index
            (sqlite3_bind_text eng tr (m_handle s) index val (int (length val)))
            (tr @ [Call_bind_text (m_handle s) index val (int (length val))]))"

definition bindString_name ::
  "engine \<Rightarrow> string \<Rightarrow> string \<Rightarrow> Statement \<Rightarrow> trace \<Rightarrow> unit result \<times> trace" where
  "bindString_name eng name val s tr =
     (case getParameterIndex eng name s tr of
        (Inl e, tr1) \<Rightarrow> (Inl e, tr1)
      | (Inr index, tr1) \<Rightarrow> bindString eng index val s tr1)"

text \<open>
  The reading methods of \<^verbatim>\<open>sqlitepp.cpp\<close>, where they belong to Statement.
  \<^verbatim>\<open>std::string(const char*)\<close> on a null pointer is undefined.
\<close>

definition Statement_canRead :: "Statement \<Rightarrow> bool" where
  "Statement_canRead s = m_canRead s"


definition Statement_readDouble ::
  "engine \<Rightarrow> int \<Rightarrow> Statement \<Rightarrow> trace \<Rightarrow> double result \<times> trace" where
  "Statement_readDouble eng column s tr =
     (case requireOpen s of
        Inl e \<Rightarrow> (Inl e, tr)
      | Inr _ \<Rightarrow>
          (case requireCanRead s of
             Inl e \<Rightarrow> (Inl e, tr)
           | Inr _ \<Rightarrow>
               (Inr (sqlite3_column_double eng tr (m_handle s) column),
                tr @ [Call_column_double (m_handle s) column])))"

definition Statement_readInt ::
  "engine \<Rightarrow> int \<Rightarrow> Statement \<Rightarrow> trace \<Rightarrow> int result \<times> trace" where
  "Statement_readInt eng column s tr =
     (case requireOpen s of
        Inl e \<Rightarrow> (Inl e, tr)
      | Inr _ \<Rightarrow>
          (case requireCanRead s of
             Inl e \<Rightarrow> (Inl e, tr)
           | Inr _ \<Rightarrow>
               (Inr (sqlite3_column_int eng tr (m_handle s) column),
                tr @ [Call_column_int (m_handle s) column])))"

definition Statement_readString ::
  "engine \<Rightarrow> int \<Rightarrow> Statement \<Rightarrow> trace \<Rightarrow> string result \<times> trace" where
  "Statement_readString eng column s tr =
     (case requireOpen s of
        Inl e \<Rightarrow> (Inl e, tr)
      | Inr _ \<Rightarrow>
          (case requireCanRead s of
             Inl e \<Rightarrow> (Inl e, tr)
           | Inr _ \<Rightarrow>
               (case sqlite3_column_text eng tr (m_handle s) column of
                  None \<Rightarrow> (Inl Undefined_behaviour, tr @ [Call_column_text (m_handle s) column])
                | Some text \<Rightarrow> (Inr text, tr @ [Call_column_text (m_handle s) column]))))"


section \<open>Shared ownership\<close>

text \<open>
  Statements made by \<^verbatim>\<open>Database::prepare\<close> live behind
  \<^verbatim>\<open>std::shared_ptr<Statement>\<close>.  The heap holds, at each address, the object
  and the number of shared pointers that own it, or \<open>None\<close> once it was
  destroyed; addresses are never reused.  A shared pointer is the address of
  its object, or \<open>None\<close> when empty.
\<close>

type_synonym heap = "(Statement \<times> nat) option list"
type_synonym shared_ptr = "addr option"

definition cell :: "heap \<Rightarrow> shared_ptr \<Rightarrow> (Statement \<times> nat) option" where
  "cell h p = (case p of None \<Rightarrow> None | Some a \<Rightarrow> if a < length h then h ! a else None)"

definition deref :: "heap \<Rightarrow> shared_ptr \<Rightarrow> Statement option" where
  "deref h p = map_option fst (cell h p)"

text \<open>\<^verbatim>\<open>std::shared_ptr<Statement>(new Statement(...))\<close>.\<close>

definition shared_new :: "Statement \<Rightarrow> heap \<Rightarrow> shared_ptr \<times> heap" where
  "shared_new s h = (Some (length h), h @ [Some (s, 1)])"

text \<open>Writing to the object a pointer owns.\<close>

definition store :: "shared_ptr \<Rightarrow> Statement \<Rightarrow> heap \<Rightarrow> heap" where
  "store p s h =
     (case p of
        None \<Rightarrow> h
      | Some a \<Rightarrow> (case cell h p of None \<Rightarrow> h | Some (old, n) \<Rightarrow> h[a := Some (s, n)]))"

text \<open>\<^verbatim>\<open>p->method(...)\<close>: undefined on an empty pointer.\<close>

definition arrow ::
  "(Statement \<Rightarrow> trace \<Rightarrow> 'a result \<times> Statement \<times> trace) \<Rightarrow> shared_ptr \<Rightarrow> heap \<Rightarrow> trace
     \<Rightarrow> 'a result \<times> heap \<times> trace" where
  "arrow method p h tr =
     (case deref h p of
        None \<Rightarrow> (Inl Undefined_behaviour, h, tr)
      | Some s \<Rightarrow> (let (r, s1, tr1) = method s tr in (r, store p s1 h, tr1)))"

text \<open>\<^verbatim>\<open>weak_ptr::lock\<close>: a new owner of the object if it is alive, else empty.\<close>

definition lock :: "addr option \<Rightarrow> heap \<Rightarrow> shared_ptr \<times> heap" where
  "lock wp h =
     (case wp of
        None \<Rightarrow> (None, h)
      | Some a \<Rightarrow>
          (case cell h wp of
             None \<Rightarrow> (None, h)
           | Some (s, n) \<Rightarrow> (Some a, h[a := Some (s, Suc n)])))"

text \<open>
  Dropping a shared pointer: the last owner runs \<^verbatim>\<open>Statement::~Statement\<close>
  and frees the object.
\<close>

definition release :: "engine \<Rightarrow> shared_ptr \<Rightarrow> heap \<Rightarrow> trace \<Rightarrow> heap \<times> trace" where
  "release eng p h tr =
     (case p of
        None \<Rightarrow> (h, tr)
      | Some a \<Rightarrow>
          (case cell h p of
             None \<Rightarrow> (h, tr)
           | Some (s, n) \<Rightarrow>
               if n \<le> 1 then (let (s1, tr1) = Statement_destroy eng s tr in (h[a := None], tr1))
               else (h[a := Some (s, n - 1)], tr)))"


section \<open>ResultSet\<close>

record ResultSet =
  m_statement :: shared_ptr

text \<open>\<^verbatim>\<open>Statement::execute\<close>, called through a shared pointer \<open>this\<close>.\<close>

definition Statement_execute ::
  "engine \<Rightarrow> shared_ptr \<Rightarrow> heap \<Rightarrow> trace \<Rightarrow> ResultSet result \<times> heap \<times> trace" where
  "Statement_execute eng this h tr =
     (case arrow (Statement_step eng) this h tr of
        (Inl e, h1, tr1) \<Rightarrow> (Inl e, h1, tr1)
      | (Inr _, h1, tr1) \<Rightarrow>
          (case deref h1 this of
             None \<Rightarrow> (Inl Undefined_behaviour, h1, tr1)
           | Some s \<Rightarrow>
               (let (p, h2) = lock (m_instancePointer s) h1
                in (Inr \<lparr>m_statement = p\<rparr>, h2, tr1))))"

definition ResultSet_canRead :: "ResultSet \<Rightarrow> heap \<Rightarrow> bool result" where
  "ResultSet_canRead rs h =
     (case deref h (m_statement rs) of
        None \<Rightarrow> Inl Undefined_behaviour
      | Some s \<Rightarrow> Inr (m_canRead s))"

definition ResultSet_columnCount ::
  "engine \<Rightarrow> ResultSet \<Rightarrow> heap \<Rightarrow> trace \<Rightarrow> int result \<times> trace" where
  "ResultSet_columnCount eng rs h tr =
     (case deref h (m_statement rs) of
        None \<Rightarrow> (Inl Undefined_behaviour, tr)
      | Some s \<Rightarrow>
          (case requireOpen s of
             Inl e \<Rightarrow> (Inl e, tr)
           | Inr _ \<Rightarrow>
               (case requireCanRead s of
                  Inl e \<Rightarrow> (Inl e, tr)
                | Inr _ \<Rightarrow>
                    (Inr (sqlite3_data_count eng tr (m_handle s)),
                     tr @ [Call_data_count (m_handle s)]))))"

definition ResultSet_readDouble ::
  "engine \<Rightarrow> int \<Rightarrow> ResultSet \<Rightarrow> heap \<Rightarrow> trace \<Rightarrow> double result \<times> trace" where
  "ResultSet_readDouble eng column rs h tr =
     (case deref h (m_statement rs) of
        None \<Rightarrow> (Inl Undefined_behaviour, tr)
      | Some s \<Rightarrow>
          (case requireOpen s of
             Inl e \<Rightarrow> (Inl e, tr)
           | Inr _ \<Rightarrow>
               (case requireCanRead s of
                  Inl e \<Rightarrow> (Inl e, tr)
                | Inr _ \<Rightarrow>
                    (Inr (sqlite3_column_double eng tr (m_handle s) column),
                     tr @ [Call_column_double (m_handle s) column]))))"

definition ResultSet_readInt ::
  "engine \<Rightarrow> int \<Rightarrow> ResultSet \<Rightarrow> heap \<Rightarrow> trace \<Rightarrow> int result \<times> trace" where
  "ResultSet_readInt eng column rs h tr =
     (case deref h (m_statement rs) of
        None \<Rightarrow> (Inl Undefined_behaviour, tr)
      | Some s \<Rightarrow>
          (case requireOpen s of
             Inl e \<Rightarrow> (Inl e, tr)
           | Inr _ \<Rightarrow>
               (case requireCanRead s of
                  Inl e \<Rightarrow> (Inl e, tr)
                | Inr _ \<Rightarrow>
                    (Inr (sqlite3_column_int eng tr (m_handle s) column),
                     tr @ [Call_column_int (m_handle s) column]))))"

definition ResultSet_readString ::
  "engine \<Rightarrow> int \<Rightarrow> ResultSet \<Rightarrow> heap \<Rightarrow> trace \<Rightarrow> string result \<times> trace" where
  "ResultSet_readString eng column rs h tr =
     (case deref h (m_statement rs) of
        None \<Rightarrow> (Inl Undefined_behaviour, tr)
      | Some s \<Rightarrow>
          (case requireOpen s of
             Inl e \<Rightarrow> (Inl e, tr)
           | Inr _ \<Rightarrow>
               (case requireCanRead s of
                  Inl e \<Rightarrow> (Inl e, tr)
                | Inr _ \<Rightarrow>
                    (case sqlite3_column_text eng tr (m_handle s) column of
                       None \<Rightarrow>
                         (Inl Undefined_behaviour, tr @ [Call_column_text (m_handle s) column])
                     | Some text \<Rightarrow>
                         (Inr text, tr @ [Call_column_text (m_handle s) column])))))"

definition ResultSet_next ::
  "engine \<Rightarrow> ResultSet \<Rightarrow> heap \<Rightarrow> trace \<Rightarrow> bool result \<times> heap \<times> trace" where
  "ResultSet_next eng rs h tr = arrow (Statement_step eng) (m_statement rs) h tr"


section \<open>Database\<close>

text \<open>
  \<^verbatim>\<open>Database::m_handle\<close> is \<open>m_dbHandle\<close> here (a record field name is used
  once).  The default constructor leaves it uninitialised; it is read only
  while the Database is open.
\<close>

record Database = Openable +
  m_dbHandle :: db_handle

definition Database_new :: Database where
  "Database_new =
     \<lparr>m_open = False, m_name = bound_to_temporary ''Database'', m_dbHandle = None\<rparr>"

text \<open>\<^verbatim>\<open>Database::open\<close> (the same body in both files).\<close>

definition Database_open ::
  "engine \<Rightarrow> string \<Rightarrow> Database \<Rightarrow> trace \<Rightarrow> unit result \<times> Database \<times> trace" where
  "Database_open eng file db tr =
     (if isOpen db then
        (Inl (Throw (logic_error
           ''sqlitepp::Database::open(std::string&): Database already open'')), db, tr)
      else
        (let (result, handle) = sqlite3_open eng tr file;
             db1 = db\<lparr>m_dbHandle := handle\<rparr>;
             tr1 = tr @ [Call_open file]
         in if m_dbHandle db1 = None then
              (Inl (Throw (runtime_error
                 ''sqlitepp::Database::open(std::string&): Can't allocate memory'')), db1, tr1)
            else if result = SQLITE_OK then (Inr (), setOpen True db1, tr1)
            else
              (let errorMessage = sqlite3_errmsg eng tr1 (m_dbHandle db1);
                   tr2 = tr1 @ [Call_errmsg (m_dbHandle db1)];
                   ignored = sqlite3_close eng tr2 (m_dbHandle db1);
                   tr3 = tr2 @ [Call_close (m_dbHandle db1)]
               in (Inl (Throw (DatabaseError2 result errorMessage)), db1, tr3))))"

text \<open>\<^verbatim>\<open>Database::close\<close> (the same body in both files).\<close>

definition Database_close ::
  "engine \<Rightarrow> Database \<Rightarrow> trace \<Rightarrow> unit result \<times> Database \<times> trace" where
  "Database_close eng db tr =
     (if isOpen db then
        (let result = sqlite3_close eng tr (m_dbHandle db);
             tr1 = tr @ [Call_close (m_dbHandle db)]
         in if result = SQLITE_OK then (Inr (), setOpen False db, tr1)
            else (let (e, tr2) = DatabaseError1 eng result tr1 in (Inl (Throw e), db, tr2)))
      else (Inr (), db, tr))"

text \<open>\<^verbatim>\<open>Database::~Database\<close> of \<^verbatim>\<open>sqlitepp.cc\<close>.\<close>

definition Database_destroy ::
  "engine \<Rightarrow> Database \<Rightarrow> trace \<Rightarrow> unit result \<times> Database \<times> trace" where
  "Database_destroy eng db tr =
     (if isOpen db then
        (let ignored = sqlite3_close eng tr (m_dbHandle db);
             tr1 = tr @ [Call_close (m_dbHandle db)]
         in (Inr (), setOpen False db, tr1))
      else (Inr (), db, tr))"

text \<open>
  \<^verbatim>\<open>Database::~Database\<close> of \<^verbatim>\<open>sqlitepp.cpp\<close>: a failed close is written to
  \<^verbatim>\<open>std::cerr\<close> and the process is ended by \<^verbatim>\<open>std::abort()\<close>.
\<close>

definition legacy_Database_destroy ::
  "engine \<Rightarrow> Database \<Rightarrow> trace \<Rightarrow> unit result \<times> Database \<times> trace" where
  "legacy_Database_destroy eng db tr =
     (if isOpen db then
        (let result = sqlite3_close eng tr (m_dbHandle db);
             tr1 = tr @ [Call_close (m_dbHandle db)]
         in if result \<noteq> SQLITE_OK then (Inl Abort, db, tr1 @ [Call_errstr result])
            else (Inr (), setOpen False db, tr1))
      else (Inr (), db, tr))"

text \<open>\<^verbatim>\<open>Database::prepare\<close> of \<^verbatim>\<open>sqlitepp.cc\<close>.\<close>

definition Database_prepare ::
  "engine \<Rightarrow> string \<Rightarrow> Database \<Rightarrow> heap \<Rightarrow> trace \<Rightarrow> shared_ptr result \<times> heap \<times> trace" where
  "Database_prepare eng sql db h tr =
     (case requireOpen db of
        Inl e \<Rightarrow> (Inl e, h, tr)
      | Inr _ \<Rightarrow>
          (let (result, statementHandle) =
                 sqlite3_prepare_v2 eng tr (m_dbHandle db) sql (int (length sql));
               tr1 = tr @ [Call_prepare_v2 (m_dbHandle db) sql (int (length sql))]
           in if result \<noteq> SQLITE_OK then
                (Inl (Throw (DatabaseError2 result (sqlite3_errmsg eng tr1 (m_dbHandle db)))),
                 h, tr1 @ [Call_errmsg (m_dbHandle db)])
              else if statementHandle = None then
                (Inl (Throw (runtime_error ''Statement handle is NULL'')), h, tr1)
              else
                (let (statement, h1) = shared_new (Statement_new statementHandle) h;
                     (r, h2, tr2) =
                        arrow (\<lambda>s t. (Inr (), setInstancePointer statement s, t)) statement h1 tr1
                 in (Inr statement, h2, tr2))))"



section \<open>Engines used at concrete inputs\<close>

text \<open>
  An engine with fixed answers: \<open>rc\<close> to open, close, finalize, reset and
  the binds, \<open>SQLITE_OK\<close> and statement handle 7 to prepare, \<open>st\<close> to step,
  \<open>idx\<close> for a parameter name, \<open>txt\<close> for a text column.
\<close>

definition fixed_engine :: "int \<Rightarrow> int \<Rightarrow> int \<Rightarrow> string option \<Rightarrow> engine" where
  "fixed_engine rc st idx txt =
     \<lparr>sqlite3_open = (\<lambda>tr file. (rc, Some 1)),
      sqlite3_close = (\<lambda>tr h. rc),
      sqlite3_errmsg = (\<lambda>tr h. ''engine message''),
      sqlite3_errstr = (\<lambda>tr c. ''engine default''),
      sqlite3_prepare_v2 = (\<lambda>tr h sql n. (SQLITE_OK, Some 7)),
      sqlite3_finalize = (\<lambda>tr h. rc),
      sqlite3_step = (\<lambda>tr h. st),
      sqlite3_reset = (\<lambda>tr h. rc),
      sqlite3_bind_double = (\<lambda>tr h i v. rc),
      sqlite3_bind_int = (\<lambda>tr h i v. rc),
      sqlite3_bind_text = (\<lambda>tr h i v n. rc),
      sqlite3_bind_parameter_index = (\<lambda>tr h name. idx),
      sqlite3_data_count = (\<lambda>tr h. 2),
      sqlite3_column_count = (\<lambda>tr h. 2),
      sqlite3_column_double = (\<lambda>tr h c. 0),
      sqlite3_column_int = (\<lambda>tr h c. 42),
      sqlite3_column_text = (\<lambda>tr h c. txt),
      sqlite3_last_insert_rowid = (\<lambda>tr h. 1)\<rparr>"

text \<open>An open and a closed Statement on handle 7, and an open Database on handle 1.\<close>

definition open_stmt :: "bool \<Rightarrow> Statement" where
  "open_stmt r = (Statement_new (Some 7))\<lparr>m_canRead := r\<rparr>"

definition closed_stmt :: "bool \<Rightarrow> Statement" where
  "closed_stmt r = setOpen False (open_stmt r)"

definition open_db :: Database where
  "open_db = setOpen True (Database_new\<lparr>m_dbHandle := Some 1\<rparr>)"


section \<open>Properties\<close>

lemmas SQLITE_defs =
  SQLITE_OK_def SQLITE_NOMEM_def SQLITE_RANGE_def SQLITE_ROW_def SQLITE_DONE_def

lemmas fixture_defs =
  fixed_engine_def open_stmt_def closed_stmt_def open_db_def Statement_new_def
  Database_new_def bound_to_temporary_def setOpen_def isOpen_def

subsection \<open>Shared objects\<close>

lemma cell_update:
  "a < length h \<Longrightarrow> cell (h[a := x]) (Some a) = x"
  by (simp add: cell_def)

lemma deref_update:
  "a < length h \<Longrightarrow> deref (h[a := Some (s, n)]) (Some a) = Some s"
  by (simp add: deref_def cell_update)

lemma arrow_live:
  "a < length h \<Longrightarrow> h ! a = Some (s, n) \<Longrightarrow> method s tr = (r, s1, tr1) \<Longrightarrow>
   arrow method (Some a) h tr = (r, h[a := Some (s1, n)], tr1)"
  by (simp add: arrow_def deref_def cell_def store_def)

lemma step_keeps_pointer:
  "Statement_step eng s tr = (r, s1, tr1) \<Longrightarrow>
   m_instancePointer s1 = m_instancePointer s \<and> m_handle s1 = m_handle s \<and>
   m_open s1 = m_open s \<and> m_name s1 = m_name s"
  by (auto simp add: Statement_step_def requireOpen_def Let_def DatabaseError1_def
        split: if_splits sum.splits option.splits)

lemma step_result_flag:
  "Statement_step eng s tr = (Inr b, s1, tr1) \<Longrightarrow>
   m_canRead s1 = b \<and> isOpen s \<and> tr1 = tr @ [Call_step (m_handle s)]"
  by (auto simp add: Statement_step_def requireOpen_def isOpen_def Let_def DatabaseError1_def
        split: if_splits sum.splits option.splits)

lemma release_last_owner:
  "a < length h \<Longrightarrow> h ! a = Some (s, 1) \<Longrightarrow> isOpen s \<Longrightarrow>
   release eng (Some a) h tr = (h[a := None], tr @ [Call_finalize (m_handle s)])"
  by (simp add: release_def cell_def Statement_destroy_def Let_def)

lemma execute_live:
  assumes live: "a < length h" "h ! a = Some (s, n)"
    and self: "m_instancePointer s = Some a"
    and stepped: "Statement_step eng s tr = (r, s1, tr1)"
  shows "Statement_execute eng (Some a) h tr =
           (case r of
              Inl e \<Rightarrow> (Inl e, h[a := Some (s1, n)], tr1)
            | Inr b \<Rightarrow> (Inr \<lparr>m_statement = Some a\<rparr>, h[a := Some (s1, Suc n)], tr1))"
proof -
  have keep: "m_instancePointer s1 = Some a"
    using step_keeps_pointer [OF stepped] self by simp
  have arr: "arrow (Statement_step eng) (Some a) h tr = (r, h[a := Some (s1, n)], tr1)"
    using arrow_live [of a h s n "Statement_step eng" tr r s1 tr1] live stepped by simp
  show ?thesis
    using live(1) keep
    by (simp add: Statement_execute_def arr deref_update lock_def cell_update split: sum.splits)
qed

lemma next_live:
  "a < length h \<Longrightarrow> h ! a = Some (s, n) \<Longrightarrow>
   ResultSet_next eng \<lparr>m_statement = Some a\<rparr> h tr =
     (case Statement_step eng s tr of (r, s1, tr1) \<Rightarrow> (r, h[a := Some (s1, n)], tr1))"
  by (simp add: ResultSet_next_def arrow_def deref_def cell_def store_def split: prod.splits)

lemma reads_live:
  assumes "a < length h" "h ! a = Some (s, n)" "isOpen s" "m_canRead s"
  shows "ResultSet_columnCount eng \<lparr>m_statement = Some a\<rparr> h tr =
           (Inr (sqlite3_data_count eng tr (m_handle s)), tr @ [Call_data_count (m_handle s)])"
    and "ResultSet_readInt eng c \<lparr>m_statement = Some a\<rparr> h tr =
           (Inr (sqlite3_column_int eng tr (m_handle s) c), tr @ [Call_column_int (m_handle s) c])"
    and "ResultSet_readDouble eng c \<lparr>m_statement = Some a\<rparr> h tr =
           (Inr (sqlite3_column_double eng tr (m_handle s) c),
            tr @ [Call_column_double (m_handle s) c])"
    and "ResultSet_readString eng c \<lparr>m_statement = Some a\<rparr> h tr =
           (case sqlite3_column_text eng tr (m_handle s) c of
              None \<Rightarrow> Inl Undefined_behaviour
            | Some txt \<Rightarrow> Inr txt, tr @ [Call_column_text (m_handle s) c])"
  using assms
  by (simp_all add: ResultSet_columnCount_def ResultSet_readInt_def ResultSet_readDouble_def
        ResultSet_readString_def deref_def cell_def requireOpen_def requireCanRead_def
        isOpen_def split: option.splits)

subsection \<open>step\<close>



lemma step_error:
  "isOpen s \<Longrightarrow> sqlite3_step eng tr (m_handle s) = rc \<Longrightarrow>
   rc \<noteq> SQLITE_ROW \<Longrightarrow> rc \<noteq> SQLITE_DONE \<Longrightarrow>
   Statement_step eng s tr =
     (Inl (Throw (DatabaseError rc
        (''Caught SQLite3 error '' @ put_int rc @ '' meaning: '' @
         sqlite3_errstr eng (tr @ [Call_step (m_handle s)]) rc))),
      s, tr @ [Call_step (m_handle s), Call_errstr rc])"
  by (simp add: Statement_step_def requireOpen_def isOpen_def DatabaseError1_def
        getErrorMessage_def Let_def)

lemma step_closed:
  "\<not> isOpen s \<Longrightarrow> m_name s = None \<Longrightarrow>
   Statement_step eng s tr = (Inl Undefined_behaviour, s, tr)"
  by (simp add: Statement_step_def requireOpen_def isOpen_def)

text \<open>
  C1 fails on the code in its last part.  A Statement is constructed and
  closed; step on it makes no engine call, but it does not throw the
  logic_error: requireOpen reads m_name, a reference to a string that was
  destroyed when the constructor returned, and the outcome is undefined
  behaviour.  (On an open Statement step does what C1 says: lemmas
  \<open>step_row\<close>, \<open>step_done\<close>, \<open>step_error\<close>.)
\<close>

theorem step_on_closed_statement:
  "Statement_close (fixed_engine 0 100 1 None) ((Statement_new (Some 7))\<lparr>m_canRead := True\<rparr>) [] =
     (Inr (), closed_stmt True, [Call_finalize (Some 7)]) \<and>
   Statement_step (fixed_engine 0 100 1 None) (closed_stmt True) [Call_finalize (Some 7)] =
     (Inl Undefined_behaviour, closed_stmt True, [Call_finalize (Some 7)])"
  by (simp add: Statement_close_def Statement_step_def requireOpen_def fixture_defs)


subsection \<open>reset\<close>

text \<open>What reset does on an open Statement.\<close>

lemma reset_open:
  "isOpen s \<Longrightarrow>
   Statement_reset eng s tr =
     (Inr (sqlite3_reset eng tr (m_handle s) = SQLITE_OK), s, tr @ [Call_reset (m_handle s)])"
  by (simp add: Statement_reset_def requireOpen_def isOpen_def)

text \<open>
  C2 fails on the code in two places.  On a Statement with a current row, a
  reset that the engine reports as successful returns true and canRead is
  still true: reset never writes the flag.  On a closed Statement reset does
  not throw the logic_error: requireOpen reads the dead reference m_name and
  the outcome is undefined behaviour.
\<close>

theorem reset_defects:
  "fst (Statement_reset (fixed_engine 0 100 1 None) (open_stmt True) []) = Inr True \<and>
   Statement_canRead
     (fst (snd (Statement_reset (fixed_engine 0 100 1 None) (open_stmt True) []))) \<and>
   Statement_reset (fixed_engine 0 100 1 None) (closed_stmt True) [] =
     (Inl Undefined_behaviour, closed_stmt True, [])"
  by (simp add: Statement_reset_def requireOpen_def Statement_canRead_def fixture_defs
        SQLITE_defs)


subsection \<open>Database::open\<close>

lemma put_int_14: "put_int 14 = ''14''"
  by code_simp

text \<open>
  C5.  Database::open throws a logic_error when the Database is already open,
  and then leaves it as it was and makes no engine call; throws the
  runtime_error "Can't allocate memory" when the engine hands back no
  connection; throws a DatabaseError with the engine's code and message when
  the engine hands back a connection and a code other than SQLITE_OK, after
  it has closed that connection, and leaves the Database closed; and marks the
  Database open on SQLITE_OK.
\<close>

theorem open_outcomes:
  "(isOpen db \<longrightarrow>
      Database_open eng file db tr =
        (Inl (Throw (logic_error
           ''sqlitepp::Database::open(std::string&): Database already open'')), db, tr)) \<and>
   (\<not> isOpen db \<and> snd (sqlite3_open eng tr file) = None \<longrightarrow>
      Database_open eng file db tr =
        (Inl (Throw (runtime_error
           ''sqlitepp::Database::open(std::string&): Can't allocate memory'')),
         db\<lparr>m_dbHandle := None\<rparr>, tr @ [Call_open file])) \<and>
   (\<not> isOpen db \<and> sqlite3_open eng tr file = (rc, Some c) \<and> rc \<noteq> SQLITE_OK \<longrightarrow>
      Database_open eng file db tr =
        (Inl (Throw (DatabaseError rc
           (''Caught SQLite3 error '' @ put_int rc @ '' meaning: '' @
            sqlite3_errmsg eng (tr @ [Call_open file]) (Some c)))),
         db\<lparr>m_dbHandle := Some c\<rparr>,
         tr @ [Call_open file, Call_errmsg (Some c), Call_close (Some c)])) \<and>
   (\<not> isOpen db \<and> sqlite3_open eng tr file = (SQLITE_OK, Some c) \<longrightarrow>
      Database_open eng file db tr =
        (Inr (), db\<lparr>m_open := True, m_dbHandle := Some c\<rparr>, tr @ [Call_open file]))"
  by (auto simp add: Database_open_def isOpen_def setOpen_def DatabaseError2_def
        getErrorMessage_def Let_def split: prod.splits)

theorem open_outcomes_witness:
  "Database_open (fixed_engine 0 100 1 None) ''b.db'' open_db [Call_open ''a.db''] =
     (Inl (Throw (logic_error
        ''sqlitepp::Database::open(std::string&): Database already open'')),
      open_db, [Call_open ''a.db'']) \<and>
   Database_open ((fixed_engine 7 100 1 None)\<lparr>sqlite3_open := \<lambda>tr file. (7, None)\<rparr>)
       ''a.db'' Database_new [] =
     (Inl (Throw (runtime_error
        ''sqlitepp::Database::open(std::string&): Can't allocate memory'')),
      Database_new, [Call_open ''a.db'']) \<and>
   Database_open (fixed_engine 14 100 1 None) ''a.db'' Database_new [] =
     (Inl (Throw (DatabaseError 14 ''Caught SQLite3 error 14 meaning: engine message'')),
      Database_new\<lparr>m_dbHandle := Some 1\<rparr>,
      [Call_open ''a.db'', Call_errmsg (Some 1), Call_close (Some 1)]) \<and>
   Database_open (fixed_engine 0 100 1 None) ''a.db'' Database_new [] =
     (Inr (), open_db, [Call_open ''a.db''])"
  using open_outcomes [of open_db "fixed_engine 0 100 1 None" "''b.db''" "[Call_open ''a.db'']"]
        open_outcomes [of Database_new
          "(fixed_engine 7 100 1 None)\<lparr>sqlite3_open := \<lambda>tr file. (7, None)\<rparr>" "''a.db''" "[]"]
        open_outcomes [of Database_new "fixed_engine 14 100 1 None" "''a.db''" "[]" 14 1]
        open_outcomes [of Database_new "fixed_engine 0 100 1 None" "''a.db''" "[]" 0 1]
        put_int_14
  by (simp add: fixture_defs SQLITE_defs)

subsection \<open>execute and the ResultSet\<close>

text \<open>
  C3.  Let a shared pointer own an open Statement whose instance pointer is
  the Statement itself (as Database::prepare sets it), and let one step of
  that Statement have the outcome \<open>(r, s', tr')\<close>.  Then execute has
  exactly the effect of that one step on the Statement and on the engine
  (the calls it makes hold one sqlite3_step), and when the step returns it
  gives a ResultSet that points to the same object, which now has one owner
  more; when the step throws, so does execute.  ResultSet::next is one step
  of that object.  When the caller then drops its own pointer, the object is
  not destroyed and no engine call is made: it is still open, canRead of the
  ResultSet returns the flag the step set, and after a row columnCount,
  readInt, readDouble and (for a non-null text) readString return the
  engine's values.
\<close>

theorem execute_shares_statement:
  assumes live: "a < length h" "h ! a = Some (s, n)" "0 < n"
    and self: "m_instancePointer s = Some a"
    and opn: "isOpen s"
    and stepped: "Statement_step eng s tr = (r, s', tr')"
  shows "Statement_execute eng (Some a) h tr =
           (case r of
              Inl e \<Rightarrow> (Inl e, h[a := Some (s', n)], tr')
            | Inr b \<Rightarrow> (Inr \<lparr>m_statement = Some a\<rparr>, h[a := Some (s', Suc n)], tr')) \<and>
         (\<exists>rest. tr' = tr @ Call_step (m_handle s) # rest \<and> Call_step (m_handle s) \<notin> set rest) \<and>
         ResultSet_next eng \<lparr>m_statement = Some a\<rparr> (h[a := Some (s', Suc n)]) t =
           (case Statement_step eng s' t of
              (r2, s2, t2) \<Rightarrow> (r2, h[a := Some (s2, Suc n)], t2)) \<and>
         release eng (Some a) (h[a := Some (s', Suc n)]) t = (h[a := Some (s', n)], t) \<and>
         isOpen s' \<and>
         ResultSet_canRead \<lparr>m_statement = Some a\<rparr> (h[a := Some (s', n)]) = Inr (m_canRead s') \<and>
         (r = Inr True \<longrightarrow>
            m_canRead s' \<and>
            ResultSet_columnCount eng \<lparr>m_statement = Some a\<rparr> (h[a := Some (s', n)]) t =
              (Inr (sqlite3_data_count eng t (m_handle s)), t @ [Call_data_count (m_handle s)]) \<and>
            ResultSet_readInt eng c \<lparr>m_statement = Some a\<rparr> (h[a := Some (s', n)]) t =
              (Inr (sqlite3_column_int eng t (m_handle s) c),
               t @ [Call_column_int (m_handle s) c]) \<and>
            ResultSet_readDouble eng c \<lparr>m_statement = Some a\<rparr> (h[a := Some (s', n)]) t =
              (Inr (sqlite3_column_double eng t (m_handle s) c),
               t @ [Call_column_double (m_handle s) c]) \<and>
            (sqlite3_column_text eng t (m_handle s) c = Some v \<longrightarrow>
               ResultSet_readString eng c \<lparr>m_statement = Some a\<rparr> (h[a := Some (s', n)]) t =
                 (Inr v, t @ [Call_column_text (m_handle s) c])))"
proof -
  note keep = step_keeps_pointer [OF stepped]
  have open1: "isOpen s'"
    using keep opn by (simp add: isOpen_def)
  have one: "\<exists>rest. tr' = tr @ Call_step (m_handle s) # rest \<and> Call_step (m_handle s) \<notin> set rest"
    using stepped opn
    by (auto simp add: Statement_step_def requireOpen_def isOpen_def Let_def DatabaseError1_def
          split: if_splits option.splits)
  have len: "a < length (h[a := Some (s', Suc n)])" "a < length (h[a := Some (s', n)])"
    using live(1) by simp_all
  have at: "h[a := Some (s', Suc n)] ! a = Some (s', Suc n)" "h[a := Some (s', n)] ! a = Some (s', n)"
    using live(1) by simp_all
  have nxt: "ResultSet_next eng \<lparr>m_statement = Some a\<rparr> (h[a := Some (s', Suc n)]) t =
           (case Statement_step eng s' t of
              (r2, s2, t2) \<Rightarrow> (r2, h[a := Some (s2, Suc n)], t2))"
    using next_live [OF len(1) at(1), of eng t] by (simp split: prod.splits)
  have rel: "release eng (Some a) (h[a := Some (s', Suc n)]) t = (h[a := Some (s', n)], t)"
    using live(1) live(3) by (simp add: release_def cell_update)
  have can: "ResultSet_canRead \<lparr>m_statement = Some a\<rparr> (h[a := Some (s', n)]) = Inr (m_canRead s')"
    using live(1) by (simp add: ResultSet_canRead_def deref_update)
  have rd: "r = Inr True \<longrightarrow>
            m_canRead s' \<and>
            ResultSet_columnCount eng \<lparr>m_statement = Some a\<rparr> (h[a := Some (s', n)]) t =
              (Inr (sqlite3_data_count eng t (m_handle s)), t @ [Call_data_count (m_handle s)]) \<and>
            ResultSet_readInt eng c \<lparr>m_statement = Some a\<rparr> (h[a := Some (s', n)]) t =
              (Inr (sqlite3_column_int eng t (m_handle s) c),
               t @ [Call_column_int (m_handle s) c]) \<and>
            ResultSet_readDouble eng c \<lparr>m_statement = Some a\<rparr> (h[a := Some (s', n)]) t =
              (Inr (sqlite3_column_double eng t (m_handle s) c),
               t @ [Call_column_double (m_handle s) c]) \<and>
            (sqlite3_column_text eng t (m_handle s) c = Some v \<longrightarrow>
               ResultSet_readString eng c \<lparr>m_statement = Some a\<rparr> (h[a := Some (s', n)]) t =
                 (Inr v, t @ [Call_column_text (m_handle s) c]))"
  proof
    assume row: "r = Inr True"
    then have flag: "m_canRead s'"
      using step_result_flag [of eng s tr True s' tr'] stepped by simp
    show "m_canRead s' \<and>
            ResultSet_columnCount eng \<lparr>m_statement = Some a\<rparr> (h[a := Some (s', n)]) t =
              (Inr (sqlite3_data_count eng t (m_handle s)), t @ [Call_data_count (m_handle s)]) \<and>
            ResultSet_readInt eng c \<lparr>m_statement = Some a\<rparr> (h[a := Some (s', n)]) t =
              (Inr (sqlite3_column_int eng t (m_handle s) c),
               t @ [Call_column_int (m_handle s) c]) \<and>
            ResultSet_readDouble eng c \<lparr>m_statement = Some a\<rparr> (h[a := Some (s', n)]) t =
              (Inr (sqlite3_column_double eng t (m_handle s) c),
               t @ [Call_column_double (m_handle s) c]) \<and>
            (sqlite3_column_text eng t (m_handle s) c = Some v \<longrightarrow>
               ResultSet_readString eng c \<lparr>m_statement = Some a\<rparr> (h[a := Some (s', n)]) t =
                 (Inr v, t @ [Call_column_text (m_handle s) c]))"
      using reads_live [OF len(2) at(2) open1 flag] keep flag by simp
  qed
  show ?thesis
    using execute_live [OF live(1) live(2) self stepped] one nxt rel open1 can rd
    by (intro conjI)
qed

theorem execute_shares_statement_witness:
  "Database_prepare (fixed_engine 0 100 1 (Some ''a'')) ''SELECT 1'' open_db [] [] =
     (Inr (Some 0), [Some ((open_stmt False)\<lparr>m_instancePointer := Some 0\<rparr>, 1)],
      [Call_prepare_v2 (Some 1) ''SELECT 1'' 8]) \<and>
   Statement_execute (fixed_engine 0 100 1 (Some ''a'')) (Some 0)
       [Some ((open_stmt False)\<lparr>m_instancePointer := Some 0\<rparr>, 1)] [] =
     (Inr \<lparr>m_statement = Some 0\<rparr>,
      [Some ((open_stmt True)\<lparr>m_instancePointer := Some 0\<rparr>, 2)], [Call_step (Some 7)]) \<and>
   release (fixed_engine 0 100 1 (Some ''a'')) (Some 0)
       [Some ((open_stmt True)\<lparr>m_instancePointer := Some 0\<rparr>, 2)] [Call_step (Some 7)] =
     ([Some ((open_stmt True)\<lparr>m_instancePointer := Some 0\<rparr>, 1)], [Call_step (Some 7)]) \<and>
   ResultSet_canRead \<lparr>m_statement = Some 0\<rparr>
       [Some ((open_stmt True)\<lparr>m_instancePointer := Some 0\<rparr>, 1)] = Inr True \<and>
   ResultSet_readInt (fixed_engine 0 100 1 (Some ''a'')) 0 \<lparr>m_statement = Some 0\<rparr>
       [Some ((open_stmt True)\<lparr>m_instancePointer := Some 0\<rparr>, 1)] [Call_step (Some 7)] =
     (Inr 42, [Call_step (Some 7), Call_column_int (Some 7) 0]) \<and>
   ResultSet_readString (fixed_engine 0 100 1 (Some ''a'')) 1 \<lparr>m_statement = Some 0\<rparr>
       [Some ((open_stmt True)\<lparr>m_instancePointer := Some 0\<rparr>, 1)] [Call_step (Some 7)] =
     (Inr ''a'', [Call_step (Some 7), Call_column_text (Some 7) 1])"
proof -
  have stepped: "Statement_step (fixed_engine 0 100 1 (Some ''a''))
      ((open_stmt False)\<lparr>m_instancePointer := Some 0\<rparr>) [] =
      (Inr True, (open_stmt True)\<lparr>m_instancePointer := Some 0\<rparr>, [Call_step (Some 7)])"
    by (simp add: Statement_step_def requireOpen_def fixture_defs SQLITE_defs)
  have prep: "Database_prepare (fixed_engine 0 100 1 (Some ''a'')) ''SELECT 1'' open_db [] [] =
     (Inr (Some 0), [Some ((open_stmt False)\<lparr>m_instancePointer := Some 0\<rparr>, 1)],
      [Call_prepare_v2 (Some 1) ''SELECT 1'' 8])"
    by (simp add: Database_prepare_def requireOpen_def shared_new_def arrow_def deref_def
          cell_def store_def setInstancePointer_def fixture_defs SQLITE_defs)
  show ?thesis
    using prep
      execute_shares_statement [where a = 0
        and h = "[Some ((open_stmt False)\<lparr>m_instancePointer := Some 0\<rparr>, 1)]"
        and s = "(open_stmt False)\<lparr>m_instancePointer := Some 0\<rparr>" and n = 1
        and eng = "fixed_engine 0 100 1 (Some ''a'')" and tr = "[]" and r = "Inr True"
        and s' = "(open_stmt True)\<lparr>m_instancePointer := Some 0\<rparr>"
        and tr' = "[Call_step (Some 7)]" and t = "[Call_step (Some 7)]" and c = 0
        and v = "''a''", OF _ _ _ _ _ stepped]
      execute_shares_statement [where a = 0
        and h = "[Some ((open_stmt False)\<lparr>m_instancePointer := Some 0\<rparr>, 1)]"
        and s = "(open_stmt False)\<lparr>m_instancePointer := Some 0\<rparr>" and n = 1
        and eng = "fixed_engine 0 100 1 (Some ''a'')" and tr = "[]" and r = "Inr True"
        and s' = "(open_stmt True)\<lparr>m_instancePointer := Some 0\<rparr>"
        and tr' = "[Call_step (Some 7)]" and t = "[Call_step (Some 7)]" and c = 1
        and v = "''a''", OF _ _ _ _ _ stepped]
    by (simp add: fixture_defs numeral_2_eq_2)
qed



subsection \<open>Aliases of a closed Statement\<close>

lemma close_result:
  "Statement_close eng s tr =
     (Inr (), s\<lparr>m_open := False\<rparr>, if isOpen s then tr @ [Call_finalize (m_handle s)] else tr)"
  by (simp add: Statement_close_def isOpen_def setOpen_def Let_def)

text \<open>
  The operations that start with requireOpen, through a ResultSet whose
  Statement is closed: they make no engine call, and for a Statement as the
  constructor makes it (m_name dead) their outcome is undefined behaviour,
  not the logic_error.  This is the defect of C1.
\<close>

lemma closed_alias_undefined:
  assumes "a < length h" "h ! a = Some (s, n)" "\<not> isOpen s" "m_name s = None"
  shows "ResultSet_columnCount eng \<lparr>m_statement = Some a\<rparr> h t = (Inl Undefined_behaviour, t)"
    and "ResultSet_readDouble eng c \<lparr>m_statement = Some a\<rparr> h t = (Inl Undefined_behaviour, t)"
    and "ResultSet_readInt eng c \<lparr>m_statement = Some a\<rparr> h t = (Inl Undefined_behaviour, t)"
    and "ResultSet_readString eng c \<lparr>m_statement = Some a\<rparr> h t = (Inl Undefined_behaviour, t)"
    and "ResultSet_next eng \<lparr>m_statement = Some a\<rparr> h t = (Inl Undefined_behaviour, h, t)"
proof -
  have d: "deref h (Some a) = Some s"
    using assms(1,2) by (simp add: deref_def cell_def)
  have ro: "requireOpen s = Inl Undefined_behaviour"
    using assms(3,4) by (simp add: requireOpen_def isOpen_def)
  show "ResultSet_columnCount eng \<lparr>m_statement = Some a\<rparr> h t = (Inl Undefined_behaviour, t)"
    by (simp add: ResultSet_columnCount_def d ro)
  show "ResultSet_readDouble eng c \<lparr>m_statement = Some a\<rparr> h t = (Inl Undefined_behaviour, t)"
    by (simp add: ResultSet_readDouble_def d ro)
  show "ResultSet_readInt eng c \<lparr>m_statement = Some a\<rparr> h t = (Inl Undefined_behaviour, t)"
    by (simp add: ResultSet_readInt_def d ro)
  show "ResultSet_readString eng c \<lparr>m_statement = Some a\<rparr> h t = (Inl Undefined_behaviour, t)"
    by (simp add: ResultSet_readString_def d ro)
  have st: "Statement_step eng s t = (Inl Undefined_behaviour, s, t)"
    by (simp add: Statement_step_def ro)
  have "h[a := Some (s, n)] = h"
    using assms(1,2) by (simp add: list_update_same_conv)
  then show "ResultSet_next eng \<lparr>m_statement = Some a\<rparr> h t = (Inl Undefined_behaviour, h, t)"
    using next_live [OF assms(1,2), of eng t] by (simp add: st)
qed

text \<open>
  C4, as the code has it by design.  Closing a Statement through one shared
  pointer never throws, hands the handle to sqlite3_finalize if the
  Statement was open, and marks the one shared object closed, so that every
  ResultSet that points to it sees it closed.  canRead of such a ResultSet
  does not throw and makes no engine call: it has no check of the open flag
  and returns the canRead flag of the Statement.
\<close>

theorem closed_alias:
  assumes live: "a < length h" "h ! a = Some (s, n)"
    and closing: "arrow (Statement_close eng) (Some a) h tr = (r, h', tr')"
  shows "r = Inr () \<and> h' = h[a := Some (s\<lparr>m_open := False\<rparr>, n)] \<and>
         tr' = (if isOpen s then tr @ [Call_finalize (m_handle s)] else tr) \<and>
         deref h' (Some a) = Some (s\<lparr>m_open := False\<rparr>) \<and>
         \<not> isOpen (s\<lparr>m_open := False\<rparr>) \<and>
         ResultSet_canRead \<lparr>m_statement = Some a\<rparr> h' = Inr (m_canRead s)"
proof -
  have res: "r = Inr ()" "h' = h[a := Some (s\<lparr>m_open := False\<rparr>, n)]"
      "tr' = (if isOpen s then tr @ [Call_finalize (m_handle s)] else tr)"
    using arrow_live [of a h s n "Statement_close eng" tr "Inr ()" "s\<lparr>m_open := False\<rparr>"
        "if isOpen s then tr @ [Call_finalize (m_handle s)] else tr"] live closing
    by (simp_all add: close_result)
  have d: "deref h' (Some a) = Some (s\<lparr>m_open := False\<rparr>)"
    using live(1) res(2) by (simp add: deref_update)
  show ?thesis
    using res d by (simp add: ResultSet_canRead_def isOpen_def)
qed

theorem closed_alias_witness:
  "arrow (Statement_close (fixed_engine 0 100 1 (Some ''a''))) (Some 0)
       [Some ((open_stmt True)\<lparr>m_instancePointer := Some 0\<rparr>, 2)] [Call_step (Some 7)] =
     (Inr (), [Some ((closed_stmt True)\<lparr>m_instancePointer := Some 0\<rparr>, 2)],
      [Call_step (Some 7), Call_finalize (Some 7)]) \<and>
   deref [Some ((closed_stmt True)\<lparr>m_instancePointer := Some 0\<rparr>, 2)] (Some 0) =
     Some ((closed_stmt True)\<lparr>m_instancePointer := Some 0\<rparr>) \<and>
   \<not> isOpen ((closed_stmt True)\<lparr>m_instancePointer := Some 0\<rparr>) \<and>
   ResultSet_canRead \<lparr>m_statement = Some 0\<rparr>
       [Some ((closed_stmt True)\<lparr>m_instancePointer := Some 0\<rparr>, 2)] = Inr True"
proof -
  have closing: "arrow (Statement_close (fixed_engine 0 100 1 (Some ''a''))) (Some 0)
       [Some ((open_stmt True)\<lparr>m_instancePointer := Some 0\<rparr>, 2)] [Call_step (Some 7)] =
     (Inr (), [Some ((closed_stmt True)\<lparr>m_instancePointer := Some 0\<rparr>, 2)],
      [Call_step (Some 7), Call_finalize (Some 7)])"
    by (simp add: arrow_def deref_def cell_def store_def Statement_close_def fixture_defs)
  note inst = closed_alias [where a = 0
        and h = "[Some ((open_stmt True)\<lparr>m_instancePointer := Some 0\<rparr>, 2)]"
        and s = "(open_stmt True)\<lparr>m_instancePointer := Some 0\<rparr>" and n = 2
        and eng = "fixed_engine 0 100 1 (Some ''a'')" and tr = "[Call_step (Some 7)]",
        OF _ _ closing]
  have e: "(open_stmt True)\<lparr>m_instancePointer := Some 0, m_open := False\<rparr> =
             (closed_stmt True)\<lparr>m_instancePointer := Some 0\<rparr>"
      "isOpen ((open_stmt True)\<lparr>m_instancePointer := Some 0\<rparr>)"
      "m_handle (open_stmt True) = Some 7"
      "m_canRead (open_stmt True)"
    by (simp_all add: fixture_defs)
  from inst closing show ?thesis
    by (simp add: e)
qed

text \<open>
  C4 as stated fails for canRead: a Statement that has a row is closed
  through the caller's pointer, and canRead of the ResultSet returns true.
\<close>

theorem closed_alias_canRead:
  "ResultSet_canRead \<lparr>m_statement = Some 0\<rparr>
     (fst (snd (arrow (Statement_close (fixed_engine 0 100 1 (Some ''a''))) (Some 0)
        [Some ((open_stmt True)\<lparr>m_instancePointer := Some 0\<rparr>, 2)] [Call_step (Some 7)])))
     = Inr True"
  by (simp add: ResultSet_canRead_def arrow_def deref_def cell_def store_def
        Statement_close_def fixture_defs)


subsection \<open>Destruction of a Database\<close>

text \<open>
  C6, as the code has it.  The destructor of \<^verbatim>\<open>sqlitepp.cc\<close> closes the
  connection when the Database is open, ignores the engine's answer, marks
  the Database closed and returns.  The destructor of \<^verbatim>\<open>sqlitepp.cpp\<close>
  does the same when the Database is closed or the engine answers SQLITE_OK;
  when the engine answers any other code it asks for the text of the code
  and aborts the process, with the Database still marked open.
\<close>

theorem destroy_outcomes:
  "Database_destroy eng db tr =
     (Inr (), db\<lparr>m_open := False\<rparr>,
      if isOpen db then tr @ [Call_close (m_dbHandle db)] else tr) \<and>
   (\<not> isOpen db \<longrightarrow> legacy_Database_destroy eng db tr = (Inr (), db, tr)) \<and>
   (isOpen db \<and> sqlite3_close eng tr (m_dbHandle db) = SQLITE_OK \<longrightarrow>
      legacy_Database_destroy eng db tr =
        (Inr (), db\<lparr>m_open := False\<rparr>, tr @ [Call_close (m_dbHandle db)])) \<and>
   (isOpen db \<and> sqlite3_close eng tr (m_dbHandle db) = rc \<and> rc \<noteq> SQLITE_OK \<longrightarrow>
      legacy_Database_destroy eng db tr =
        (Inl Abort, db, tr @ [Call_close (m_dbHandle db), Call_errstr rc]))"
  by (auto simp add: Database_destroy_def legacy_Database_destroy_def isOpen_def setOpen_def
        Let_def)

theorem destroy_outcomes_witness:
  "Database_destroy (fixed_engine 5 100 1 None) open_db [] =
     (Inr (), Database_new\<lparr>m_dbHandle := Some 1\<rparr>, [Call_close (Some 1)]) \<and>
   Database_destroy (fixed_engine 5 100 1 None) Database_new [] = (Inr (), Database_new, []) \<and>
   legacy_Database_destroy (fixed_engine 5 100 1 None) Database_new [] =
     (Inr (), Database_new, []) \<and>
   legacy_Database_destroy (fixed_engine 0 100 1 None) open_db [] =
     (Inr (), Database_new\<lparr>m_dbHandle := Some 1\<rparr>, [Call_close (Some 1)]) \<and>
   legacy_Database_destroy (fixed_engine 5 100 1 None) open_db [] =
     (Inl Abort, open_db, [Call_close (Some 1), Call_errstr 5])"
  using destroy_outcomes [of "fixed_engine 5 100 1 None" open_db "[]" 5]
        destroy_outcomes [of "fixed_engine 5 100 1 None" Database_new "[]" 5]
        destroy_outcomes [of "fixed_engine 0 100 1 None" open_db "[]" 0]
  by (simp add: fixture_defs SQLITE_defs)

text \<open>
  C6 as stated fails in \<^verbatim>\<open>sqlitepp.cpp\<close>: a failed close in the destructor is
  not swallowed, the process is aborted.
\<close>

theorem legacy_destroy_aborts:
  "fst (legacy_Database_destroy (fixed_engine 5 100 1 None) open_db []) = Inl Abort \<and>
   isOpen (fst (snd (legacy_Database_destroy (fixed_engine 5 100 1 None) open_db [])))"
  by (simp add: legacy_Database_destroy_def fixture_defs SQLITE_defs)


subsection \<open>Closing twice\<close>

text \<open>
  C8, as the code has it.  Statement::close never throws, whatever the
  engine answers to sqlite3_finalize, and leaves the Statement closed; on a
  closed Statement it does nothing, so a second close returns with the
  Statement closed and no engine call.  Database::close does nothing on a
  closed Database; on an open one it returns and marks the Database closed
  when the engine answers SQLITE_OK, and then a second close does nothing;
  when the engine answers another code it throws a DatabaseError with that
  code and the Database stays open.
\<close>

theorem close_twice:
  "Statement_close eng s tr =
     (Inr (), s\<lparr>m_open := False\<rparr>,
      if isOpen s then tr @ [Call_finalize (m_handle s)] else tr) \<and>
   Statement_close eng (s\<lparr>m_open := False\<rparr>) t = (Inr (), s\<lparr>m_open := False\<rparr>, t) \<and>
   (\<not> isOpen db \<longrightarrow> Database_close eng db tr = (Inr (), db, tr)) \<and>
   (isOpen db \<and> sqlite3_close eng tr (m_dbHandle db) = SQLITE_OK \<longrightarrow>
      Database_close eng db tr =
        (Inr (), db\<lparr>m_open := False\<rparr>, tr @ [Call_close (m_dbHandle db)])) \<and>
   Database_close eng (db\<lparr>m_open := False\<rparr>) t = (Inr (), db\<lparr>m_open := False\<rparr>, t) \<and>
   (isOpen db \<and> sqlite3_close eng tr (m_dbHandle db) = rc \<and> rc \<noteq> SQLITE_OK \<longrightarrow>
      (\<exists>e. Database_close eng db tr =
              (Inl (Throw e), db, tr @ [Call_close (m_dbHandle db), Call_errstr rc])
         \<and> errorCode e = Some rc))"
  by (auto simp add: Statement_close_def Database_close_def isOpen_def setOpen_def Let_def
        DatabaseError1_def)

theorem close_twice_witness:
  "Statement_close (fixed_engine 5 100 1 None) (open_stmt True) [] =
     (Inr (), closed_stmt True, [Call_finalize (Some 7)]) \<and>
   Statement_close (fixed_engine 5 100 1 None) (closed_stmt True) [Call_finalize (Some 7)] =
     (Inr (), closed_stmt True, [Call_finalize (Some 7)]) \<and>
   Database_close (fixed_engine 5 100 1 None) Database_new [] = (Inr (), Database_new, []) \<and>
   Database_close (fixed_engine 0 100 1 None) open_db [] =
     (Inr (), Database_new\<lparr>m_dbHandle := Some 1\<rparr>, [Call_close (Some 1)]) \<and>
   Database_close (fixed_engine 0 100 1 None) (Database_new\<lparr>m_dbHandle := Some 1\<rparr>)
       [Call_close (Some 1)] =
     (Inr (), Database_new\<lparr>m_dbHandle := Some 1\<rparr>, [Call_close (Some 1)]) \<and>
   (\<exists>e. Database_close (fixed_engine 5 100 1 None) open_db [] =
          (Inl (Throw e), open_db, [Call_close (Some 1), Call_errstr 5])
      \<and> errorCode e = Some 5)"
  using close_twice [of "fixed_engine 5 100 1 None" "open_stmt True" "[]"
          "[Call_finalize (Some 7)]" Database_new 5]
        close_twice [of "fixed_engine 0 100 1 None" "open_stmt True" "[]"
          "[Call_close (Some 1)]" open_db 0]
        close_twice [of "fixed_engine 5 100 1 None" "open_stmt True" "[]"
          "[Call_close (Some 1)]" open_db 5]
  by (simp add: fixture_defs SQLITE_defs)

text \<open>
  C8 as stated fails for a Database: when the engine refuses to close the
  connection, close throws and the Database is still open.
\<close>

theorem database_close_raises:
  "fst (Database_close (fixed_engine 5 100 1 None) open_db []) =
     Inl (Throw (DatabaseError 5 (getErrorMessage 5 ''engine default''))) \<and>
   isOpen (fst (snd (Database_close (fixed_engine 5 100 1 None) open_db [])))"
  by (simp add: Database_close_def DatabaseError1_def fixture_defs SQLITE_defs)


subsection \<open>Reading a column\<close>

text \<open>
  C10.  On an open Statement with a current row, readString gives the
  pointer it gets from sqlite3_column_text to the string constructor with no
  check: for the null pointer (the engine's answer for a column that is SQL
  NULL) the outcome is undefined behaviour and no string is returned, for
  any other pointer the text is returned.  readInt and readDouble return the
  engine's value whatever it is.  This holds for the ResultSet of
  \<^verbatim>\<open>sqlitepp.cc\<close> and for the Statement of \<^verbatim>\<open>sqlitepp.cpp\<close>.
\<close>

theorem readString_null:
  "isOpen s \<and> m_canRead s \<and> deref h (m_statement rs) = Some s \<longrightarrow>
     ResultSet_readString eng c rs h tr =
       (case sqlite3_column_text eng tr (m_handle s) c of
          None \<Rightarrow> Inl Undefined_behaviour
        | Some v \<Rightarrow> Inr v, tr @ [Call_column_text (m_handle s) c]) \<and>
     Statement_readString eng c s tr =
       (case sqlite3_column_text eng tr (m_handle s) c of
          None \<Rightarrow> Inl Undefined_behaviour
        | Some v \<Rightarrow> Inr v, tr @ [Call_column_text (m_handle s) c]) \<and>
     ResultSet_readInt eng c rs h tr =
       (Inr (sqlite3_column_int eng tr (m_handle s) c), tr @ [Call_column_int (m_handle s) c]) \<and>
     Statement_readInt eng c s tr =
       (Inr (sqlite3_column_int eng tr (m_handle s) c), tr @ [Call_column_int (m_handle s) c]) \<and>
     ResultSet_readDouble eng c rs h tr =
       (Inr (sqlite3_column_double eng tr (m_handle s) c),
        tr @ [Call_column_double (m_handle s) c]) \<and>
     Statement_readDouble eng c s tr =
       (Inr (sqlite3_column_double eng tr (m_handle s) c),
        tr @ [Call_column_double (m_handle s) c])"
  by (simp add: ResultSet_readString_def Statement_readString_def ResultSet_readInt_def
        Statement_readInt_def ResultSet_readDouble_def Statement_readDouble_def
        requireOpen_def requireCanRead_def isOpen_def split: option.splits)

theorem readString_null_witness:
  "ResultSet_readString (fixed_engine 0 100 1 None) 1 \<lparr>m_statement = Some 0\<rparr>
       [Some (open_stmt True, 1)] [] =
     (Inl Undefined_behaviour, [Call_column_text (Some 7) 1]) \<and>
   Statement_readString (fixed_engine 0 100 1 None) 1 (open_stmt True) [] =
     (Inl Undefined_behaviour, [Call_column_text (Some 7) 1]) \<and>
   ResultSet_readString (fixed_engine 0 100 1 (Some ''a'')) 1 \<lparr>m_statement = Some 0\<rparr>
       [Some (open_stmt True, 1)] [] =
     (Inr ''a'', [Call_column_text (Some 7) 1]) \<and>
   ResultSet_readInt (fixed_engine 0 100 1 None) 1 \<lparr>m_statement = Some 0\<rparr>
       [Some (open_stmt True, 1)] [] =
     (Inr 42, [Call_column_int (Some 7) 1]) \<and>
   ResultSet_readDouble (fixed_engine 0 100 1 None) 1 \<lparr>m_statement = Some 0\<rparr>
       [Some (open_stmt True, 1)] [] =
     (Inr 0, [Call_column_double (Some 7) 1])"
  using readString_null [of "open_stmt True" "[Some (open_stmt True, 1)]"
          "\<lparr>m_statement = Some 0\<rparr>" "fixed_engine 0 100 1 None" 1 "[]"]
        readString_null [of "open_stmt True" "[Some (open_stmt True, 1)]"
          "\<lparr>m_statement = Some 0\<rparr>" "fixed_engine 0 100 1 (Some ''a'')" 1 "[]"]
  by (simp add: deref_def cell_def fixture_defs)


subsection \<open>Binding\<close>

text \<open>
  What the bind methods do: on a closed Statement they make no engine call
  and requireOpen has the defect of C1; binding by name asks the engine for
  the index and throws invalid_argument when it is 0; binding by index
  returns on SQLITE_OK, throws runtime_error on SQLITE_NOMEM and a
  DatabaseError with the code on any code other than SQLITE_RANGE.  On
  SQLITE_RANGE the out_of_range exception is thrown with a tail of the
  message while the index is between 0 and 25, the length of the literal.
\<close>

lemma handleBindResult_outcomes:
  "handleBindResult eng index SQLITE_OK tr = (Inr (), tr)"
  "handleBindResult eng index SQLITE_NOMEM tr =
     (Inl (Throw (runtime_error ''No memory to bind parameter'')), tr)"
  "rc \<noteq> SQLITE_OK \<Longrightarrow> rc \<noteq> SQLITE_RANGE \<Longrightarrow> rc \<noteq> SQLITE_NOMEM \<Longrightarrow>
   handleBindResult eng index rc tr =
     (Inl (Throw (DatabaseError rc (getErrorMessage rc (sqlite3_errstr eng tr rc)))),
      tr @ [Call_errstr rc])"
  "0 \<le> index \<Longrightarrow> index \<le> 25 \<Longrightarrow>
   handleBindResult eng index SQLITE_RANGE tr =
     (Inl (Throw (out_of_range (drop (nat index) ''Bind index out of range: ''))), tr)"
  "index < 0 \<or> 25 < index \<Longrightarrow>
   handleBindResult eng index SQLITE_RANGE tr = (Inl Undefined_behaviour, tr)"
  by (auto simp add: handleBindResult_def literal_plus_def DatabaseError1_def SQLITE_defs)

lemma bind_not_open:
  assumes "\<not> isOpen s" "m_name s = None"
  shows "bindInt eng index i s tr = (Inl Undefined_behaviour, tr)"
    and "bindDouble eng index d s tr = (Inl Undefined_behaviour, tr)"
    and "bindString eng index v s tr = (Inl Undefined_behaviour, tr)"
    and "bindInt_name eng name i s tr = (Inl Undefined_behaviour, tr)"
    and "bindDouble_name eng name d s tr = (Inl Undefined_behaviour, tr)"
    and "bindString_name eng name v s tr = (Inl Undefined_behaviour, tr)"
  using assms
  by (simp_all add: bindInt_def bindDouble_def bindString_def bindInt_name_def
        bindDouble_name_def bindString_name_def getParameterIndex_def requireOpen_def
        isOpen_def)

lemma bind_open:
  assumes "isOpen s"
  shows "bindInt eng index i s tr =
           handleBindResult eng index (sqlite3_bind_int eng tr (m_handle s) index i)
             (tr @ [Call_bind_int (m_handle s) index i])"
    and "bindDouble eng index d s tr =
           handleBindResult eng index (sqlite3_bind_double eng tr (m_handle s) index d)
             (tr @ [Call_bind_double (m_handle s) index d])"
    and "bindString eng index v s tr =
           handleBindResult eng index
             (sqlite3_bind_text eng tr (m_handle s) index v (int (length v)))
             (tr @ [Call_bind_text (m_handle s) index v (int (length v))])"
  using assms
  by (simp_all add: bindInt_def bindDouble_def bindString_def requireOpen_def isOpen_def)

lemma bind_name:
  assumes "isOpen s"
  shows "sqlite3_bind_parameter_index eng tr (m_handle s) name = 0 \<Longrightarrow>
         bindInt_name eng name i s tr =
           (Inl (Throw (invalid_argument (''No such parameter: '' @ name))),
            tr @ [Call_bind_parameter_index (m_handle s) name])"
    and "sqlite3_bind_parameter_index eng tr (m_handle s) name \<noteq> 0 \<Longrightarrow>
         bindInt_name eng name i s tr =
           bindInt eng (sqlite3_bind_parameter_index eng tr (m_handle s) name) i s
             (tr @ [Call_bind_parameter_index (m_handle s) name])"
  using assms
  by (simp_all add: bindInt_name_def getParameterIndex_def requireOpen_def isOpen_def)

text \<open>
  C7 fails on the code for SQLITE_RANGE at an index outside the literal:
  binding an int to index 100 of an open Statement, with the engine
  answering SQLITE_RANGE, does not throw out_of_range; the pointer
  \<^verbatim>\<open>"Bind index out of range: " + 100\<close> is outside the literal and the
  outcome is undefined behaviour.
\<close>

theorem bind_index_outside_literal:
  "bindInt (fixed_engine 25 100 1 None) 100 1 (open_stmt False) [] =
     (Inl Undefined_behaviour, [Call_bind_int (Some 7) 100 1])"
  by (simp add: bindInt_def handleBindResult_def literal_plus_def requireOpen_def
        fixture_defs SQLITE_defs)


subsection \<open>The canRead flag\<close>








end
